theory Spec2Isabelle
  imports Complex_Main "HOL-Library.Log_Nat" "HOL-Library.Sublist"
begin

section \<open>Python values that reach the plan validator\<close>

text \<open>
  The plan comes out of \<^verbatim>\<open>json.loads\<close>, so a value is one of the seven kinds that function
  builds. A Python float is an IEEE double: here a finite double is the real number it
  denotes, next to the two infinities and NaN (\<^verbatim>\<open>json.loads\<close> accepts \<^verbatim>\<open>Infinity\<close>,
  \<^verbatim>\<open>NaN\<close> and literals such as \<^verbatim>\<open>1e999\<close>). The sign of a zero is not kept. A dict is the
  list of its items in insertion order.
\<close>

datatype pyfloat = Fin real | PInf | NInf | NaN

datatype json =
    JNull
  | JBool bool
  | JInt int
  | JFloat pyfloat
  | JStr string
  | JList "json list"
  | JDict "(string \<times> json) list"

datatype py_error = TypeError | ValueError | OverflowError | KeyError | IndexError

text \<open>
  \<^verbatim>\<open>int(s)\<close> and \<^verbatim>\<open>float(s)\<close> on a string, and \<^verbatim>\<open>json.loads\<close>, are the interpreter's
  own: they are parameters of the model. \<open>None\<close> stands for the \<^verbatim>\<open>ValueError\<close> of a string
  that does not parse, \<open>Inl msg\<close> for an exception whose text is \<open>msg\<close>.
  \<open>responses_create\<close> is the call \<^verbatim>\<open>client.responses.create(...)\<close> followed by
  \<^verbatim>\<open>resp.output_text\<close>, given the image data and the mime type of the snapshot.
\<close>

record builtins =
  int_str :: "string \<Rightarrow> int option"
  float_str :: "string \<Rightarrow> pyfloat option"
  json_loads :: "string \<Rightarrow> string + json"
  responses_create :: "string \<Rightarrow> string \<Rightarrow> string + string"

text \<open>Truth value of a Python object, as \<^verbatim>\<open>not c\<close> tests it.\<close>

fun truthy :: "json \<Rightarrow> bool" where
  "truthy JNull = False"
| "truthy (JBool b) = b"
| "truthy (JInt n) = (n \<noteq> 0)"
| "truthy (JFloat f) = (f \<noteq> Fin 0)"
| "truthy (JStr s) = (s \<noteq> [])"
| "truthy (JList xs) = (xs \<noteq> [])"
| "truthy (JDict kvs) = (kvs \<noteq> [])"

text \<open>
  \<^verbatim>\<open>c[i]\<close> for a literal index \<open>i \<ge> 0\<close>. The keys of a dict made by \<^verbatim>\<open>json.loads\<close> are
  strings, so an integer key is never found.
\<close>

fun getitem :: "json \<Rightarrow> nat \<Rightarrow> py_error + json" where
  "getitem (JList xs) i = (if i < length xs then Inr (xs ! i) else Inl IndexError)"
| "getitem (JStr s) i = (if i < length s then Inr (JStr [s ! i]) else Inl IndexError)"
| "getitem (JDict kvs) i = Inl KeyError"
| "getitem JNull i = Inl TypeError"
| "getitem (JBool b) i = Inl TypeError"
| "getitem (JInt n) i = Inl TypeError"
| "getitem (JFloat f) i = Inl TypeError"

text \<open>\<^verbatim>\<open>len(c)\<close>; \<open>None\<close> where Python has no length for the value.\<close>

fun py_len :: "json \<Rightarrow> nat option" where
  "py_len (JList xs) = Some (length xs)"
| "py_len (JStr s) = Some (length s)"
| "py_len (JDict kvs) = Some (length kvs)"
| "py_len JNull = None"
| "py_len (JBool b) = None"
| "py_len (JInt n) = None"
| "py_len (JFloat f) = None"

text \<open>The items a \<^verbatim>\<open>for\<close> loop runs over: a dict gives its keys, a string its characters.\<close>

fun py_iter :: "json \<Rightarrow> py_error + json list" where
  "py_iter (JList xs) = Inr xs"
| "py_iter (JStr s) = Inr (map (\<lambda>ch. JStr [ch]) s)"
| "py_iter (JDict kvs) = Inr (map (\<lambda>kv. JStr (fst kv)) kvs)"
| "py_iter JNull = Inl TypeError"
| "py_iter (JBool b) = Inl TypeError"
| "py_iter (JInt n) = Inl TypeError"
| "py_iter (JFloat f) = Inl TypeError"

subsection \<open>Numeric coercions\<close>

text \<open>
  \<^verbatim>\<open>float(n)\<close> of an int rounds the magnitude to 53 significant bits, ties to even, and
  raises \<^verbatim>\<open>OverflowError\<close> when the rounded magnitude leaves the double range.
\<close>

definition round53 :: "int \<Rightarrow> int" where
  "round53 m =
     (if m < 2 ^ 53 then m
      else let s = nat (bitlen m - 53);
               q = m div 2 ^ s;
               r = m mod 2 ^ s;
               h = 2 ^ (s - 1)
           in (if h < r \<or> (r = h \<and> odd q) then q + 1 else q) * 2 ^ s)"

definition float_of_int :: "int \<Rightarrow> py_error + pyfloat" where
  "float_of_int n =
     (let m = round53 \<bar>n\<bar>
      in if 2 ^ 1024 \<le> m then Inl OverflowError
         else Inr (Fin (if n < 0 then - real_of_int m else real_of_int m)))"

fun py_float :: "builtins \<Rightarrow> json \<Rightarrow> py_error + pyfloat" where
  "py_float lib JNull = Inl TypeError"
| "py_float lib (JBool b) = Inr (Fin (if b then 1 else 0))"
| "py_float lib (JInt n) = float_of_int n"
| "py_float lib (JFloat f) = Inr f"
| "py_float lib (JStr s) = (case float_str lib s of None \<Rightarrow> Inl ValueError | Some f \<Rightarrow> Inr f)"
| "py_float lib (JList xs) = Inl TypeError"
| "py_float lib (JDict kvs) = Inl TypeError"

text \<open>\<^verbatim>\<open>int(x)\<close> truncates a finite float toward zero.\<close>

definition trunc :: "real \<Rightarrow> int" where
  "trunc r = (if 0 \<le> r then \<lfloor>r\<rfloor> else \<lceil>r\<rceil>)"

fun py_int :: "builtins \<Rightarrow> json \<Rightarrow> py_error + int" where
  "py_int lib JNull = Inl TypeError"
| "py_int lib (JBool b) = Inr (if b then 1 else 0)"
| "py_int lib (JInt n) = Inr n"
| "py_int lib (JFloat (Fin r)) = Inr (trunc r)"
| "py_int lib (JFloat PInf) = Inl OverflowError"
| "py_int lib (JFloat NInf) = Inl OverflowError"
| "py_int lib (JFloat NaN) = Inl ValueError"
| "py_int lib (JStr s) = (case int_str lib s of None \<Rightarrow> Inl ValueError | Some n \<Rightarrow> Inr n)"
| "py_int lib (JList xs) = Inl TypeError"
| "py_int lib (JDict kvs) = Inl TypeError"

section \<open>The limit table and clip\<close>

datatype joint = Base | Shoulder | Elbow | Wrist

fun ARM_LIMITS :: "joint \<Rightarrow> int \<times> int" where
  "ARM_LIMITS Base = (-150, 150)"
| "ARM_LIMITS Shoulder = (-10, 120)"
| "ARM_LIMITS Elbow = (0, 130)"
| "ARM_LIMITS Wrist = (-90, 90)"

text \<open>
  \<^verbatim>\<open>clip(v, lo, hi) = max(lo, min(hi, v))\<close> with \<open>v\<close> a float and \<open>lo\<close>, \<open>hi\<close> the ints of
  the table. \<^verbatim>\<open>min(hi, v)\<close> is \<open>v\<close> when \<^verbatim>\<open>v < hi\<close> and the int \<open>hi\<close> otherwise;
  \<^verbatim>\<open>max(lo, m)\<close> is \<open>m\<close> when \<^verbatim>\<open>m > lo\<close> and the int \<open>lo\<close> otherwise. A comparison with
  NaN is false. The result is an int bound or the float itself.
\<close>

fun float_less_int :: "pyfloat \<Rightarrow> int \<Rightarrow> bool" where
  "float_less_int (Fin r) k = (r < real_of_int k)"
| "float_less_int PInf k = False"
| "float_less_int NInf k = True"
| "float_less_int NaN k = False"

fun float_greater_int :: "pyfloat \<Rightarrow> int \<Rightarrow> bool" where
  "float_greater_int (Fin r) k = (real_of_int k < r)"
| "float_greater_int PInf k = True"
| "float_greater_int NInf k = False"
| "float_greater_int NaN k = False"

definition py_min :: "int \<Rightarrow> pyfloat \<Rightarrow> json" where
  "py_min hi v = (if float_less_int v hi then JFloat v else JInt hi)"

fun py_max :: "int \<Rightarrow> json \<Rightarrow> json" where
  "py_max lo (JFloat v) = (if float_greater_int v lo then JFloat v else JInt lo)"
| "py_max lo (JInt k) = (if lo < k then JInt k else JInt lo)"
| "py_max lo m = m"

definition clip :: "pyfloat \<Rightarrow> int \<Rightarrow> int \<Rightarrow> json" where
  "clip v lo hi = py_max lo (py_min hi v)"

definition clip_joint :: "pyfloat \<Rightarrow> joint \<Rightarrow> json" where
  "clip_joint v j = clip v (fst (ARM_LIMITS j)) (snd (ARM_LIMITS j))"

section \<open>The validation loop of brain\<close>

text \<open>The body of the MOVE branch: unpack the seven items, coerce and clamp them in order.\<close>

definition move_cmd :: "builtins \<Rightarrow> json \<Rightarrow> py_error + json" where
  "move_cmd lib c =
     (case c of
        JList [u, a0, a1, a2, a3, g, T] \<Rightarrow>
          (case py_float lib a0 of Inl e \<Rightarrow> Inl e | Inr f0 \<Rightarrow>
           case py_float lib a1 of Inl e \<Rightarrow> Inl e | Inr f1 \<Rightarrow>
           case py_float lib a2 of Inl e \<Rightarrow> Inl e | Inr f2 \<Rightarrow>
           case py_float lib a3 of Inl e \<Rightarrow> Inl e | Inr f3 \<Rightarrow>
           case py_int lib g of Inl e \<Rightarrow> Inl e | Inr gi \<Rightarrow>
           case py_int lib T of Inl e \<Rightarrow> Inl e | Inr t \<Rightarrow>
             Inr (JList [JStr ''MOVE'',
                         clip_joint f0 Base, clip_joint f1 Shoulder,
                         clip_joint f2 Elbow, clip_joint f3 Wrist,
                         JInt (if gi \<noteq> 0 then 1 else 0),
                         JInt (max 1000 (min 20000 t))]))
      | _ \<Rightarrow> Inl ValueError)"

definition grip_cmd :: "builtins \<Rightarrow> json \<Rightarrow> py_error + json" where
  "grip_cmd lib c =
     (case getitem c 1 of Inl e \<Rightarrow> Inl e | Inr x \<Rightarrow>
      case py_int lib x of Inl e \<Rightarrow> Inl e | Inr n \<Rightarrow>
        Inr (JList [JStr ''GRIP'', JInt (if n \<noteq> 0 then 1 else 0)]))"

definition wait_cmd :: "builtins \<Rightarrow> json \<Rightarrow> py_error + json" where
  "wait_cmd lib c =
     (case getitem c 1 of Inl e \<Rightarrow> Inl e | Inr x \<Rightarrow>
      case py_int lib x of Inl e \<Rightarrow> Inl e | Inr n \<Rightarrow>
        Inr (JList [JStr ''WAIT'', JInt (max 0 (min 5000 n))]))"

text \<open>
  One turn of the loop on the item \<open>c\<close>: \<open>Inr None\<close> when nothing is appended to
  \<^verbatim>\<open>safe\<close>, \<open>Inr (Some v)\<close> when \<open>v\<close> is appended, \<open>Inl e\<close> when the turn raises.
  \<^verbatim>\<open>len(c)\<close> is evaluated only after \<^verbatim>\<open>op\<close> compared equal to a tag of four letters, and
  then \<open>c\<close> is a list (lemma \<open>tag_item_is_list\<close>), so it never raises there.
\<close>

definition validate_cmd :: "builtins \<Rightarrow> json \<Rightarrow> py_error + json option" where
  "validate_cmd lib c =
     (if \<not> truthy c then Inr None
      else case getitem c 0 of Inl e \<Rightarrow> Inl e | Inr op \<Rightarrow>
        if op = JStr ''MOVE'' \<and> py_len c = Some 7 then map_sum id Some (move_cmd lib c)
        else if op = JStr ''HOME'' \<or> op = JStr ''STOP'' \<or> op = JStr ''STATUS''
          then Inr (Some (JList [op]))
        else if op = JStr ''GRIP'' \<and> py_len c = Some 2 then map_sum id Some (grip_cmd lib c)
        else if op = JStr ''WAIT'' \<and> py_len c = Some 2 then map_sum id Some (wait_cmd lib c)
        else Inr None)"

fun validate_loop :: "builtins \<Rightarrow> json list \<Rightarrow> json list \<Rightarrow> py_error + json list" where
  "validate_loop lib safe [] = Inr safe"
| "validate_loop lib safe (c # cs) =
     (case validate_cmd lib c of
        Inl e \<Rightarrow> Inl e
      | Inr None \<Rightarrow> validate_loop lib safe cs
      | Inr (Some v) \<Rightarrow> validate_loop lib (safe @ [v]) cs)"

text \<open>Lines 116 to 134: \<^verbatim>\<open>safe = []\<close> and the loop over \<^verbatim>\<open>cmds\<close>.\<close>

definition validate :: "builtins \<Rightarrow> json \<Rightarrow> py_error + json list" where
  "validate lib cmds =
     (case py_iter cmds of Inl e \<Rightarrow> Inl e | Inr items \<Rightarrow> validate_loop lib [] items)"

section \<open>The brain endpoint\<close>

record entry =
  b64 :: string
  ts :: real
  mime :: string

text \<open>
  The state a request can touch: the module's snapshot store \<^verbatim>\<open>LATEST\<close>, and the record
  of the calls made to the oracle, each with the image data and mime type it was given.
\<close>

record world =
  LATEST :: "string \<rightharpoonup> entry"
  oracle_calls :: "(string \<times> string) list"

record BrainRequest =
  status :: "string option"

datatype failure = HTTPException nat string | Uncaught py_error

definition require_key :: "string option \<Rightarrow> string option \<Rightarrow> failure option" where
  "require_key PROXY_API_KEY x_api_key =
     (if PROXY_API_KEY \<noteq> None \<and> PROXY_API_KEY \<noteq> Some [] \<and> x_api_key \<noteq> PROXY_API_KEY
      then Some (HTTPException 401 ''Bad API key'') else None)"

fun type_name :: "json \<Rightarrow> string" where
  "type_name JNull = ''NoneType''"
| "type_name (JBool b) = ''bool''"
| "type_name (JInt n) = ''int''"
| "type_name (JFloat f) = ''float''"
| "type_name (JStr s) = ''str''"
| "type_name (JList xs) = ''list''"
| "type_name (JDict kvs) = ''dict''"

text \<open>\<^verbatim>\<open>plan.get("cmds", [])\<close>: only a dict has \<^verbatim>\<open>get\<close>; the text is that of the AttributeError.\<close>

definition plan_get_cmds :: "json \<Rightarrow> string + json" where
  "plan_get_cmds plan =
     (case plan of
        JDict kvs \<Rightarrow> Inr (case map_of kvs ''cmds'' of None \<Rightarrow> JList [] | Some v \<Rightarrow> v)
      | _ \<Rightarrow> Inl ([CHR 0x27] @ type_name plan @ [CHR 0x27] @ '' object has no attribute ''
                 @ [CHR 0x27] @ ''get'' @ [CHR 0x27]))"

text \<open>
  The call \<^verbatim>\<open>client.responses.create(...)\<close> with the reading of \<^verbatim>\<open>resp.output_text\<close>:
  it hands the image data and the mime type to the oracle, which is recorded in
  \<open>oracle_calls\<close>, and gives the oracle's answer.
\<close>

definition create_response ::
  "builtins \<Rightarrow> string \<Rightarrow> string \<Rightarrow> world \<Rightarrow> (string + string) \<times> world" where
  "create_response lib image_data mime_type w =
     (responses_create lib image_data mime_type,
      w\<lparr>oracle_calls := oracle_calls w @ [(image_data, mime_type)]\<rparr>)"

text \<open>The \<^verbatim>\<open>try\<close> block, lines 89 to 112: \<open>Inl msg\<close> is the \<^verbatim>\<open>except\<close> branch with \<^verbatim>\<open>str(e) = msg\<close>.\<close>

definition oracle_cmds :: "builtins \<Rightarrow> entry \<Rightarrow> world \<Rightarrow> (string + json) \<times> world" where
  "oracle_cmds lib e w =
     (case create_response lib (b64 e) (mime e) w of
        (Inl msg, w') \<Rightarrow> (Inl msg, w')
      | (Inr output_text, w') \<Rightarrow>
          (case json_loads lib output_text of
             Inl msg \<Rightarrow> (Inl msg, w')
           | Inr plan \<Rightarrow> (plan_get_cmds plan, w')))"

subsection \<open>The age of a snapshot\<close>

text \<open>
  \<^verbatim>\<open>time.time() - entry["ts"]\<close> subtracts two doubles: the result is the exact difference
  rounded to the nearest double, ties to even, or an infinity beyond the double range.
  \<open>exponent a\<close> is the binary exponent of \<open>a > 0\<close> (lemma \<open>exponent_bounds\<close>); a double
  has 53 significant bits and no exponent below -1022.
\<close>

definition pow2 :: "int \<Rightarrow> real" where
  "pow2 k = (if 0 \<le> k then 2 ^ nat k else 1 / 2 ^ nat (- k))"

definition exponent :: "real \<Rightarrow> int" where
  "exponent a = (if 1 \<le> a then bitlen \<lfloor>a\<rfloor> - 1 else - bitlen (\<lceil>1 / a\<rceil> - 1))"

definition round_half_even :: "real \<Rightarrow> int" where
  "round_half_even q =
     (let f = \<lfloor>q\<rfloor>; d = q - real_of_int f
      in if d < 1 / 2 then f else if 1 / 2 < d then f + 1 else if even f then f else f + 1)"

definition round_double :: "real \<Rightarrow> pyfloat" where
  "round_double x =
     (if x = 0 then Fin 0
      else let a = \<bar>x\<bar>;
               u = pow2 (max (exponent a) (- 1022) - 52);
               m = real_of_int (round_half_even (a / u)) * u
           in if 2 ^ 1024 \<le> m then (if x < 0 then NInf else PInf)
              else Fin (if x < 0 then - m else m))"

definition float_sub :: "real \<Rightarrow> real \<Rightarrow> pyfloat" where
  "float_sub a b = round_double (a - b)"

text \<open>
  The handler. \<open>now\<close> is the value of \<^verbatim>\<open>time.time()\<close>. A response is the dict the
  handler returns; \<open>Inl\<close> is an exception that leaves the handler.
\<close>

definition brain ::
  "builtins \<Rightarrow> string option \<Rightarrow> real \<Rightarrow> string \<Rightarrow> BrainRequest \<Rightarrow> string option \<Rightarrow> world
     \<Rightarrow> (failure + json) \<times> world" where
  "brain lib PROXY_API_KEY now robot_id req x_api_key w =
     (case require_key PROXY_API_KEY x_api_key of
        Some f \<Rightarrow> (Inl f, w)
      | None \<Rightarrow>
          (case LATEST w robot_id of
             None \<Rightarrow> (Inr (JDict [(''cmds'', JList [])]), w)
           | Some entry \<Rightarrow>
               if float_greater_int (float_sub now (ts entry)) 60
               then (Inr (JDict [(''cmds'', JList [])]), w)
               else
                 (case oracle_cmds lib entry w of
                    (Inl msg, w') \<Rightarrow>
                      (Inr (JDict [(''cmds'', JList []), (''error'', JStr msg)]), w')
                  | (Inr cmds, w') \<Rightarrow>
                      (case validate lib cmds of
                         Inl e \<Rightarrow> (Inl (Uncaught e), w')
                       | Inr safe \<Rightarrow> (Inr (JDict [(''cmds'', JList safe)]), w')))))"

section \<open>What one turn of the loop appends\<close>

text \<open>
  The relation between an item of the plan and the command the loop appends for it, one
  rule per branch of the loop. Lemmas \<open>emits_validate_cmd\<close> and \<open>validate_cmd_emits\<close>
  show that it is exactly the graph of \<open>validate_cmd\<close> on the appending turns.
\<close>

inductive emits :: "builtins \<Rightarrow> json \<Rightarrow> json \<Rightarrow> bool" for lib :: builtins where
  move: "\<lbrakk>py_float lib a0 = Inr f0; py_float lib a1 = Inr f1; py_float lib a2 = Inr f2;
          py_float lib a3 = Inr f3; py_int lib g = Inr gi; py_int lib T = Inr t\<rbrakk>
         \<Longrightarrow> emits lib (JList [JStr ''MOVE'', a0, a1, a2, a3, g, T])
               (JList [JStr ''MOVE'', clip_joint f0 Base, clip_joint f1 Shoulder,
                       clip_joint f2 Elbow, clip_joint f3 Wrist,
                       JInt (if gi \<noteq> 0 then 1 else 0), JInt (max 1000 (min 20000 t))])"
| simple: "tag = ''HOME'' \<or> tag = ''STOP'' \<or> tag = ''STATUS''
         \<Longrightarrow> emits lib (JList (JStr tag # args)) (JList [JStr tag])"
| grip: "py_int lib x = Inr n
         \<Longrightarrow> emits lib (JList [JStr ''GRIP'', x]) (JList [JStr ''GRIP'', JInt (if n \<noteq> 0 then 1 else 0)])"
| wait: "py_int lib x = Inr n
         \<Longrightarrow> emits lib (JList [JStr ''WAIT'', x]) (JList [JStr ''WAIT'', JInt (max 0 (min 5000 n))])"

section \<open>Properties of commands\<close>

text \<open>A field of a MOVE command is the number \<open>x\<close>, inside the interval of the joint.\<close>

fun in_limits :: "joint \<Rightarrow> json \<Rightarrow> bool" where
  "in_limits j (JInt n) = (fst (ARM_LIMITS j) \<le> n \<and> n \<le> snd (ARM_LIMITS j))"
| "in_limits j (JFloat (Fin r)) =
     (real_of_int (fst (ARM_LIMITS j)) \<le> r \<and> r \<le> real_of_int (snd (ARM_LIMITS j)))"
| "in_limits j x = False"

text \<open>
  The declared bounds: a command tagged MOVE has four angles inside the limit table, an
  int gripper state 0 or 1 and an int duration in [1000, 20000]; a command tagged WAIT
  has an int duration in [0, 5000].
\<close>

fun in_bounds :: "json \<Rightarrow> bool" where
  "in_bounds (JList (JStr tag # args)) =
     (if tag = ''MOVE'' then
        (case args of
           [a0, a1, a2, a3, JInt g, JInt T] \<Rightarrow>
             in_limits Base a0 \<and> in_limits Shoulder a1 \<and> in_limits Elbow a2 \<and> in_limits Wrist a3
             \<and> (g = 0 \<or> g = 1) \<and> 1000 \<le> T \<and> T \<le> 20000
         | _ \<Rightarrow> False)
      else if tag = ''WAIT'' then
        (case args of [JInt d] \<Rightarrow> 0 \<le> d \<and> d \<le> 5000 | _ \<Rightarrow> False)
      else True)"
| "in_bounds v = True"

text \<open>The number of items, tag included, that each of the six tags declares.\<close>

definition arity :: "string \<Rightarrow> nat option" where
  "arity tag =
     (if tag = ''MOVE'' then Some 7
      else if tag = ''GRIP'' \<or> tag = ''WAIT'' then Some 2
      else if tag = ''HOME'' \<or> tag = ''STOP'' \<or> tag = ''STATUS'' then Some 1
      else None)"

fun well_formed :: "json \<Rightarrow> bool" where
  "well_formed (JList (JStr tag # args)) = (arity tag = Some (Suc (length args)))"
| "well_formed v = False"

text \<open>The value of a finite JSON number.\<close>

fun number :: "json \<Rightarrow> real option" where
  "number (JInt n) = Some (real_of_int n)"
| "number (JFloat (Fin r)) = Some r"
| "number x = None"

text \<open>
  The entries on which a turn of the loop raises nothing: an empty or false value, a
  string, or a list whose coerced fields are accepted, these being the four angles
  (\<^verbatim>\<open>float\<close>), the gripper and the duration (\<^verbatim>\<open>int\<close>) of a MOVE list of length 7, and
  the second item (\<^verbatim>\<open>int\<close>) of a GRIP or WAIT list of length 2. No other item is coerced.
\<close>

definition fields_accepted :: "builtins \<Rightarrow> json \<Rightarrow> json list \<Rightarrow> bool" where
  "fields_accepted lib op xs =
     (if op = JStr ''MOVE'' \<and> length xs = 6 then
        list_all (\<lambda>x. \<not> isl (py_float lib x)) (take 4 xs)
        \<and> list_all (\<lambda>x. \<not> isl (py_int lib x)) (drop 4 xs)
      else if (op = JStr ''GRIP'' \<or> op = JStr ''WAIT'') \<and> length xs = 1 then
        list_all (\<lambda>x. \<not> isl (py_int lib x)) xs
      else True)"

fun accepted_entry :: "builtins \<Rightarrow> json \<Rightarrow> bool" where
  "accepted_entry lib (JList []) = True"
| "accepted_entry lib (JList (op # xs)) = fields_accepted lib op xs"
| "accepted_entry lib (JStr s) = True"
| "accepted_entry lib c = (\<not> truthy c)"

text \<open>
  An entry no branch of the loop takes: an empty or false value, a string, a list whose
  first item is none of the six tags, or a MOVE, GRIP or WAIT list of the wrong length.
\<close>

fun not_understood :: "json \<Rightarrow> bool" where
  "not_understood (JList []) = True"
| "not_understood (JList (op # xs)) =
     (op \<noteq> JStr ''HOME'' \<and> op \<noteq> JStr ''STOP'' \<and> op \<noteq> JStr ''STATUS''
      \<and> (op = JStr ''MOVE'' \<longrightarrow> length xs \<noteq> 6)
      \<and> (op = JStr ''GRIP'' \<or> op = JStr ''WAIT'' \<longrightarrow> length xs \<noteq> 1))"
| "not_understood (JStr s) = True"
| "not_understood c = (\<not> truthy c)"

section \<open>Concrete environments and plans\<close>

text \<open>
  An environment for the closed instances below. Its oracle either raises with the text
  \<open>msg\<close> (\<open>Inl msg\<close>) or answers with a text that \<^verbatim>\<open>json.loads\<close> reads as \<open>plan\<close>
  (\<open>Inr plan\<close>). No string parses as a number in it: the instances hand no string to
  \<^verbatim>\<open>int\<close> or \<^verbatim>\<open>float\<close> but \<^verbatim>\<open>"HOME"\<close>, which Python rejects as well.
\<close>

definition test_lib :: "string + json \<Rightarrow> builtins" where
  "test_lib answer =
     \<lparr>int_str = (\<lambda>s. None),
      float_str = (\<lambda>s. None),
      json_loads = (\<lambda>text. case answer of Inl msg \<Rightarrow> Inl msg | Inr plan \<Rightarrow> Inr plan),
      responses_create =
        (\<lambda>image_data mime_type. case answer of Inl msg \<Rightarrow> Inl msg | Inr plan \<Rightarrow> Inr ''plan'')\<rparr>"

text \<open>
  The plan \<^verbatim>\<open>[["MOVE",200,50,60,0,1,500],["WAIT",99999],["FOO"],["GRIP",5]]\<close> and what the
  loop makes of it.
\<close>

definition scenario_cmds :: json where
  "scenario_cmds =
     JList [JList [JStr ''MOVE'', JInt 200, JInt 50, JInt 60, JInt 0, JInt 1, JInt 500],
            JList [JStr ''WAIT'', JInt 99999],
            JList [JStr ''FOO''],
            JList [JStr ''GRIP'', JInt 5]]"

definition scenario_safe :: "json list" where
  "scenario_safe =
     [JList [JStr ''MOVE'', JInt 150, JFloat (Fin 50), JFloat (Fin 60), JFloat (Fin 0),
             JInt 1, JInt 1000],
      JList [JStr ''WAIT'', JInt 5000],
      JList [JStr ''GRIP'', JInt 1]]"

text \<open>
  A plan with entries that are not understood, fields that are never coerced and a NaN
  angle, and what the loop makes of it.
\<close>

definition tolerated_cmds :: json where
  "tolerated_cmds =
     JList [JList [JStr ''FOO'', JStr ''bar''],
            JList [JStr ''HOME'', JNull],
            JList [JStr ''MOVE'', JNull, JInt 1],
            JList [JStr ''MOVE'', JFloat NaN, JInt 0, JInt 0, JInt 0, JInt 1, JInt 1000],
            JInt 0,
            JStr ''WAIT'',
            JList [JStr ''GRIP'', JInt 5]]"

definition tolerated_safe :: "json list" where
  "tolerated_safe =
     [JList [JStr ''HOME''],
      JList [JStr ''MOVE'', JInt 150, JFloat (Fin 0), JInt 0, JFloat (Fin 0), JInt 1, JInt 1000],
      JList [JStr ''GRIP'', JInt 1]]"

definition snapshot :: entry where
  "snapshot = \<lparr>b64 = ''aW1n'', ts = 1000, mime = ''image/png''\<rparr>"

definition world0 :: world where
  "world0 = \<lparr>LATEST = [''arm1'' \<mapsto> snapshot], oracle_calls = []\<rparr>"

definition request0 :: BrainRequest where
  "request0 = \<lparr>status = Some ''idle''\<rparr>"

text \<open>
  A snapshot taken half a second after the epoch, less one unit in the last place: at
  \<open>now = 60.5\<close> its exact age is above 60 and the double \<^verbatim>\<open>now - ts\<close> is 60.0.
\<close>

definition epoch_snapshot :: entry where
  "epoch_snapshot = \<lparr>b64 = ''aW1n'', ts = 1 / 2 - 1 / 2 ^ 54, mime = ''image/png''\<rparr>"

definition epoch_world :: world where
  "epoch_world = \<lparr>LATEST = [''arm1'' \<mapsto> epoch_snapshot], oracle_calls = []\<rparr>"

section \<open>Lemmas on the loop\<close>

lemma length_seven: "length xs = 7 \<Longrightarrow> \<exists>a b c d e f g. xs = [a,b,c,d,e,f,g]"
  by (auto simp: numeral_eq_Suc length_Suc_conv)

lemma length_two: "length xs = 2 \<Longrightarrow> \<exists>a b. xs = [a,b]"
  by (auto simp: numeral_eq_Suc length_Suc_conv)

lemma tag_item_is_list: "getitem c 0 = Inr (JStr t) \<Longrightarrow> 1 < length t \<Longrightarrow> \<exists>x xs. c = JList (JStr t # xs)"
  by (cases c) (auto split: if_splits simp: neq_Nil_conv)

lemma emits_validate_cmd: "emits lib c v \<Longrightarrow> validate_cmd lib c = Inr (Some v)"
  by (induction rule: emits.induct)
     (auto simp: validate_cmd_def move_cmd_def grip_cmd_def wait_cmd_def)

lemma validate_cmd_emits:
  assumes "validate_cmd lib c = Inr (Some v)"
  shows "emits lib c v"
proof -
  from assms have t: "truthy c"
    by (auto simp: validate_cmd_def split: if_splits)
  with assms obtain op where op: "getitem c 0 = Inr op"
    by (cases "getitem c 0") (auto simp: validate_cmd_def)
  consider (move) "op = JStr ''MOVE''" "py_len c = Some 7" "move_cmd lib c = Inr v"
    | (simple) "op = JStr ''HOME'' \<or> op = JStr ''STOP'' \<or> op = JStr ''STATUS''" "v = JList [op]"
    | (grip) "op = JStr ''GRIP''" "py_len c = Some 2" "grip_cmd lib c = Inr v"
    | (wait) "op = JStr ''WAIT''" "py_len c = Some 2" "wait_cmd lib c = Inr v"
    using assms t op
    by (cases "move_cmd lib c"; cases "grip_cmd lib c"; cases "wait_cmd lib c")
       (auto simp: validate_cmd_def split: if_splits)
  then show ?thesis
  proof cases
    case move
    with op obtain xs where c: "c = JList (JStr ''MOVE'' # xs)"
      using tag_item_is_list [of c "''MOVE''"] by auto
    with move(2) obtain a0 a1 a2 a3 g T where xs: "xs = [a0, a1, a2, a3, g, T]"
      using length_seven [of "JStr ''MOVE'' # xs"] by auto
    from move(3) show ?thesis
      unfolding c xs
      by (auto simp: move_cmd_def split: sum.splits intro: emits.move)
  next
    case simple
    with op obtain tag xs where "c = JList (JStr tag # xs)" "op = JStr tag"
      using tag_item_is_list [of c] by auto
    with simple show ?thesis
      by (auto intro: emits.simple)
  next
    case grip
    with op obtain xs where c: "c = JList (JStr ''GRIP'' # xs)"
      using tag_item_is_list [of c "''GRIP''"] by auto
    with grip(2) obtain x where xs: "xs = [x]"
      using length_two [of "JStr ''GRIP'' # xs"] by auto
    from grip(3) show ?thesis
      unfolding c xs
      by (auto simp: grip_cmd_def split: sum.splits intro: emits.grip)
  next
    case wait
    with op obtain xs where c: "c = JList (JStr ''WAIT'' # xs)"
      using tag_item_is_list [of c "''WAIT''"] by auto
    with wait(2) obtain x where xs: "xs = [x]"
      using length_two [of "JStr ''WAIT'' # xs"] by auto
    from wait(3) show ?thesis
      unfolding c xs
      by (auto simp: wait_cmd_def split: sum.splits intro: emits.wait)
  qed
qed

lemma validate_loop_Inr:
  "validate_loop lib safe cs = Inr out \<Longrightarrow>
     \<exists>new. out = safe @ new \<and>
       list_all2 (\<lambda>c v. validate_cmd lib c = Inr (Some v))
         (filter (\<lambda>c. validate_cmd lib c \<noteq> Inr None) cs) new"
proof (induction cs arbitrary: safe)
  case Nil
  then show ?case by simp
next
  case (Cons c cs)
  show ?case
  proof (cases "validate_cmd lib c")
    case (Inl e)
    with Cons.prems show ?thesis by simp
  next
    case (Inr r)
    show ?thesis
    proof (cases r)
      case None
      with Inr Cons show ?thesis by simp
    next
      case (Some v)
      with Inr Cons.prems have "validate_loop lib (safe @ [v]) cs = Inr out" by simp
      from Cons.IH [OF this] Inr Some show ?thesis by auto
    qed
  qed
qed

lemma validate_loop_fixed:
  "\<forall>v\<in>set vs. validate_cmd lib v = Inr (Some v) \<Longrightarrow> validate_loop lib safe vs = Inr (safe @ vs)"
  by (induction vs arbitrary: safe) auto

lemma clip_joint_cases:
  "clip_joint v j = JInt (fst (ARM_LIMITS j)) \<or> clip_joint v j = JInt (snd (ARM_LIMITS j)) \<or>
   (\<exists>r. v = Fin r \<and> clip_joint v j = JFloat (Fin r) \<and>
        real_of_int (fst (ARM_LIMITS j)) < r \<and> r < real_of_int (snd (ARM_LIMITS j)))"
  by (cases v) (auto simp: clip_joint_def clip_def py_min_def)

lemma clip_joint_again:
  "\<exists>f. py_float lib (clip_joint v j) = Inr f \<and> clip_joint f j = clip_joint v j"
  using clip_joint_cases [of v j]
  by (cases j) (auto simp: float_of_int_def round53_def clip_joint_def clip_def py_min_def)

lemma emits_again: "emits lib c v \<Longrightarrow> emits lib v v"
proof (induction rule: emits.induct)
  case (move a0 f0 a1 f1 a2 f2 a3 f3 g gi T t)
  obtain e0 where e0: "py_float lib (clip_joint f0 Base) = Inr e0"
      and c0: "clip_joint e0 Base = clip_joint f0 Base"
    using clip_joint_again by blast
  obtain e1 where e1: "py_float lib (clip_joint f1 Shoulder) = Inr e1"
      and c1: "clip_joint e1 Shoulder = clip_joint f1 Shoulder"
    using clip_joint_again by blast
  obtain e2 where e2: "py_float lib (clip_joint f2 Elbow) = Inr e2"
      and c2: "clip_joint e2 Elbow = clip_joint f2 Elbow"
    using clip_joint_again by blast
  obtain e3 where e3: "py_float lib (clip_joint f3 Wrist) = Inr e3"
      and c3: "clip_joint e3 Wrist = clip_joint f3 Wrist"
    using clip_joint_again by blast
  have pg: "py_int lib (JInt (if gi \<noteq> 0 then 1 else 0)) = Inr (if gi \<noteq> 0 then 1 else 0)"
    by simp
  have pt: "py_int lib (JInt (max 1000 (min 20000 t))) = Inr (max 1000 (min 20000 t))"
    by simp
  have g2: "(if (if gi \<noteq> 0 then 1 else 0) \<noteq> (0::int) then 1 else 0) = (if gi \<noteq> 0 then 1 else (0::int))"
    by simp
  have t2: "max 1000 (min 20000 (max 1000 (min 20000 t))) = max 1000 (min 20000 t)"
    by simp
  show ?case
    using emits.move [OF e0 e1 e2 e3 pg pt] unfolding c0 c1 c2 c3 g2 t2 .
next
  case (simple tag args)
  then show ?case by (auto intro: emits.simple)
next
  case (grip x n)
  have "emits lib (JList [JStr ''GRIP'', JInt (if n \<noteq> 0 then 1 else 0)])
          (JList [JStr ''GRIP'', JInt (if (if n \<noteq> 0 then 1 else 0) \<noteq> (0::int) then 1 else 0)])"
    by (rule emits.grip) simp
  then show ?case by (simp split: if_splits)
next
  case (wait x n)
  have "emits lib (JList [JStr ''WAIT'', JInt (max 0 (min 5000 n))])
          (JList [JStr ''WAIT'', JInt (max 0 (min 5000 (max 0 (min 5000 n))))])"
    by (rule emits.wait) simp
  moreover have "max 0 (min 5000 (max 0 (min 5000 n))) = max 0 (min 5000 n)" by simp
  ultimately show ?case by simp
qed


lemma in_limits_clip_joint: "in_limits j (clip_joint v j)"
  using clip_joint_cases [of v j] by (cases j) auto

lemma emits_in_bounds: "emits lib c v \<Longrightarrow> in_bounds v"
  by (induction rule: emits.induct) (auto simp: in_limits_clip_joint)

lemma emits_well_formed: "emits lib c v \<Longrightarrow> well_formed v"
  by (induction rule: emits.induct) (auto simp: arity_def)

lemma validate_emits:
  assumes "validate lib cmds = Inr out" and "v \<in> set out"
  shows "\<exists>c. emits lib c v"
proof -
  from assms(1) obtain items where "validate_loop lib [] items = Inr out"
    by (auto simp: validate_def split: sum.splits)
  from validate_loop_Inr [OF this]
  have "list_all2 (\<lambda>c v. validate_cmd lib c = Inr (Some v))
          (filter (\<lambda>c. validate_cmd lib c \<noteq> Inr None) items) out"
    by simp
  with assms(2) obtain c where "validate_cmd lib c = Inr (Some v)"
    by (auto simp: list_all2_conv_all_nth in_set_conv_nth)
  then show ?thesis
    by (auto dest: validate_cmd_emits)
qed

lemma scenario_validate: "validate (test_lib a) scenario_cmds = Inr scenario_safe"
  by (simp add: scenario_cmds_def scenario_safe_def validate_def validate_cmd_def move_cmd_def
      grip_cmd_def wait_cmd_def float_of_int_def round53_def clip_joint_def clip_def py_min_def)


lemma trunc_zero_iff: "trunc r = 0 \<longleftrightarrow> \<bar>r\<bar> < 1"
  unfolding trunc_def by (auto simp: floor_eq_iff ceiling_eq_iff)

lemma py_int_number: "number x = Some r \<Longrightarrow> py_int lib x = Inr (trunc r)"
  by (induction x rule: number.induct) (auto simp: trunc_def)

subsection \<open>Entries on which the loop returns\<close>

lemma not_understood_omitted: "not_understood c \<Longrightarrow> validate_cmd lib c = Inr None"
  by (induction c rule: not_understood.induct) (auto simp: validate_cmd_def neq_Nil_conv)

lemma move_cmd_returns_iff:
  "\<not> isl (move_cmd lib (JList [u, a0, a1, a2, a3, g, T])) \<longleftrightarrow>
     \<not> isl (py_float lib a0) \<and> \<not> isl (py_float lib a1) \<and> \<not> isl (py_float lib a2)
     \<and> \<not> isl (py_float lib a3) \<and> \<not> isl (py_int lib g) \<and> \<not> isl (py_int lib T)"
  by (cases "py_float lib a0"; cases "py_float lib a1"; cases "py_float lib a2";
      cases "py_float lib a3"; cases "py_int lib g"; cases "py_int lib T")
     (simp_all add: move_cmd_def)

lemma grip_cmd_returns_iff: "\<not> isl (grip_cmd lib (JList [u, x])) \<longleftrightarrow> \<not> isl (py_int lib x)"
  by (cases "py_int lib x") (simp_all add: grip_cmd_def)

lemma wait_cmd_returns_iff: "\<not> isl (wait_cmd lib (JList [u, x])) \<longleftrightarrow> \<not> isl (py_int lib x)"
  by (cases "py_int lib x") (simp_all add: wait_cmd_def)

lemma isl_map_sum: "isl (map_sum f g x) = isl x"
  by (cases x) simp_all

lemma validate_list_returns_iff:
  "\<not> isl (validate_cmd lib (JList (op # xs))) \<longleftrightarrow> fields_accepted lib op xs"
proof (cases "op = JStr ''MOVE''")
  case True
  show ?thesis
  proof (cases "length xs = 6")
    case six: True
    then obtain a0 a1 a2 a3 g T where l: "xs = [a0, a1, a2, a3, g, T]"
      by (auto simp: numeral_eq_Suc length_Suc_conv)
    show ?thesis
      unfolding True l
      by (simp add: validate_cmd_def fields_accepted_def isl_map_sum move_cmd_returns_iff)
  next
    case False
    with True show ?thesis
      by (simp add: validate_cmd_def fields_accepted_def)
  qed
next
  case nm: False
  show ?thesis
  proof (cases "op = JStr ''HOME'' \<or> op = JStr ''STOP'' \<or> op = JStr ''STATUS''")
    case True
    then show ?thesis
      by (elim disjE) (simp_all add: validate_cmd_def fields_accepted_def)
  next
    case ns: False
    show ?thesis
    proof (cases "op = JStr ''GRIP''")
      case True
      show ?thesis
      proof (cases "length xs = 1")
        case one: True
        then obtain x where l: "xs = [x]" by (cases xs) simp_all
        show ?thesis
          unfolding True l
          by (simp add: validate_cmd_def fields_accepted_def isl_map_sum grip_cmd_returns_iff)
      next
        case False
        with True show ?thesis
          by (simp add: validate_cmd_def fields_accepted_def)
      qed
    next
      case ng: False
      show ?thesis
      proof (cases "op = JStr ''WAIT''")
        case True
        show ?thesis
        proof (cases "length xs = 1")
          case one: True
          then obtain x where l: "xs = [x]" by (cases xs) simp_all
          show ?thesis
            unfolding True l
            by (simp add: validate_cmd_def fields_accepted_def isl_map_sum wait_cmd_returns_iff)
        next
          case False
          with True show ?thesis
            by (simp add: validate_cmd_def fields_accepted_def)
        qed
      next
        case False
        with nm ns ng show ?thesis
          by (simp add: validate_cmd_def fields_accepted_def)
      qed
    qed
  qed
qed

lemma validate_cmd_returns_iff: "\<not> isl (validate_cmd lib c) \<longleftrightarrow> accepted_entry lib c"
proof (cases c)
  case (JList ys)
  then show ?thesis
    by (cases ys) (simp_all add: validate_list_returns_iff, simp add: validate_cmd_def)
next
  case (JStr s)
  then show ?thesis
    by (cases s) (simp_all add: validate_cmd_def)
qed (simp_all add: validate_cmd_def)

lemma validate_loop_returns_iff:
  "\<not> isl (validate_loop lib safe items) \<longleftrightarrow> list_all (accepted_entry lib) items"
proof (induction items arbitrary: safe)
  case Nil
  then show ?case by simp
next
  case (Cons c cs)
  show ?case
  proof (cases "validate_cmd lib c")
    case (Inl e)
    with validate_cmd_returns_iff [of lib c] show ?thesis by simp
  next
    case (Inr r)
    with validate_cmd_returns_iff [of lib c] have "accepted_entry lib c" by simp
    with Inr Cons.IH [of safe] Cons.IH show ?thesis
      by (cases r) simp_all
  qed
qed

lemma validate_returns_iff:
  "\<not> isl (validate lib cmds) \<longleftrightarrow>
     (\<exists>items. py_iter cmds = Inr items \<and> list_all (accepted_entry lib) items)"
  by (cases "py_iter cmds") (simp_all add: validate_def validate_loop_returns_iff)

lemma scenario_items: "py_iter scenario_cmds =
   Inr [JList [JStr ''MOVE'', JInt 200, JInt 50, JInt 60, JInt 0, JInt 1, JInt 500],
        JList [JStr ''WAIT'', JInt 99999], JList [JStr ''FOO''], JList [JStr ''GRIP'', JInt 5]]"
  by (simp add: scenario_cmds_def)

lemma scenario_kept:
  "filter (\<lambda>c. validate_cmd (test_lib a) c \<noteq> Inr None)
      [JList [JStr ''MOVE'', JInt 200, JInt 50, JInt 60, JInt 0, JInt 1, JInt 500],
       JList [JStr ''WAIT'', JInt 99999], JList [JStr ''FOO''], JList [JStr ''GRIP'', JInt 5]]
   = [JList [JStr ''MOVE'', JInt 200, JInt 50, JInt 60, JInt 0, JInt 1, JInt 500],
       JList [JStr ''WAIT'', JInt 99999], JList [JStr ''GRIP'', JInt 5]]"
  by (simp add: validate_cmd_def move_cmd_def grip_cmd_def wait_cmd_def float_of_int_def round53_def)

lemma tolerated_items: "py_iter tolerated_cmds =
   Inr [JList [JStr ''FOO'', JStr ''bar''],
        JList [JStr ''HOME'', JNull],
        JList [JStr ''MOVE'', JNull, JInt 1],
        JList [JStr ''MOVE'', JFloat NaN, JInt 0, JInt 0, JInt 0, JInt 1, JInt 1000],
        JInt 0,
        JStr ''WAIT'',
        JList [JStr ''GRIP'', JInt 5]]"
  by (simp add: tolerated_cmds_def)

lemma tolerated_accepted:
  "list_all (accepted_entry lib)
       [JList [JStr ''FOO'', JStr ''bar''],
        JList [JStr ''HOME'', JNull],
        JList [JStr ''MOVE'', JNull, JInt 1],
        JList [JStr ''MOVE'', JFloat NaN, JInt 0, JInt 0, JInt 0, JInt 1, JInt 1000],
        JInt 0,
        JStr ''WAIT'',
        JList [JStr ''GRIP'', JInt 5]]"
  by (simp add: fields_accepted_def float_of_int_def round53_def)

lemma tolerated_validate: "validate lib tolerated_cmds = Inr tolerated_safe"
  by (simp add: tolerated_cmds_def tolerated_safe_def validate_def validate_cmd_def move_cmd_def
      grip_cmd_def wait_cmd_def float_of_int_def round53_def clip_joint_def clip_def py_min_def)

lemma tolerated_oracle:
  "fst (oracle_cmds (test_lib (Inr (JDict [(''cmds'', tolerated_cmds)]))) snapshot world0)
     = Inr tolerated_cmds"
  by (simp add: oracle_cmds_def create_response_def test_lib_def plan_get_cmds_def)

section \<open>Lemmas on the rounding of doubles\<close>

lemma float_sub_not_nan: "float_sub a b \<noteq> NaN"
  by (simp add: float_sub_def round_double_def Let_def)

lemma bitlen_eqI: "0 < w \<Longrightarrow> 2 ^ (nat w - 1) \<le> x \<Longrightarrow> x < 2 ^ nat w \<Longrightarrow> bitlen x = w"
  by (rule antisym) (simp_all add: bitlen_le_iff_power bitlen_ge_iff_power)

lemma bitlen_30: "bitlen 30 = 5" by (rule bitlen_eqI) simp_all
lemma bitlen_60: "bitlen 60 = 6" by (rule bitlen_eqI) simp_all
lemma bitlen_61: "bitlen 61 = 6" by (rule bitlen_eqI) simp_all

lemma float_sub_30: "float_sub 1030 1000 = Fin 30"
  by (simp add: float_sub_def round_double_def exponent_def round_half_even_def pow2_def bitlen_30)

lemma float_sub_60: "float_sub 1060 1000 = Fin 60"
  by (simp add: float_sub_def round_double_def exponent_def round_half_even_def pow2_def bitlen_60)

lemma float_sub_61: "float_sub 1061 1000 = Fin 61"
  by (simp add: float_sub_def round_double_def exponent_def round_half_even_def pow2_def bitlen_61)

lemma float_sub_rounds_to_60: "float_sub (121 / 2) (1 / 2 - 1 / 2 ^ 54) = Fin 60"
  by (simp add: float_sub_def round_double_def exponent_def round_half_even_def pow2_def bitlen_60)
















section \<open>Lemmas on the handler\<close>

lemma oracle_cmds_world:
  "snd (oracle_cmds lib e w) = w\<lparr>oracle_calls := oracle_calls w @ [(b64 e, mime e)]\<rparr>"
  by (simp add: oracle_cmds_def create_response_def split: sum.splits)


lemma brain_fresh:
  assumes "require_key PROXY_API_KEY x_api_key = None" and "LATEST w robot_id = Some e"
    and "\<not> float_greater_int (float_sub now (ts e)) 60"
  shows "brain lib PROXY_API_KEY now robot_id req x_api_key w =
           (case fst (oracle_cmds lib e w) of
              Inl msg \<Rightarrow> Inr (JDict [(''cmds'', JList []), (''error'', JStr msg)])
            | Inr cmds \<Rightarrow>
                (case validate lib cmds of
                   Inl err \<Rightarrow> Inl (Uncaught err)
                 | Inr safe \<Rightarrow> Inr (JDict [(''cmds'', JList safe)])),
            snd (oracle_cmds lib e w))"
  using assms
  by (cases "oracle_cmds lib e w") (simp add: brain_def split: sum.splits)

lemma brain_not_fresh:
  assumes "require_key PROXY_API_KEY x_api_key = None"
    and "LATEST w robot_id = None \<or>
         (LATEST w robot_id = Some e \<and> float_greater_int (float_sub now (ts e)) 60)"
  shows "brain lib PROXY_API_KEY now robot_id req x_api_key w
           = (Inr (JDict [(''cmds'', JList [])]), w)"
  using assms by (auto simp: brain_def)

lemma brain_rejected:
  "require_key PROXY_API_KEY x_api_key = Some f \<Longrightarrow>
     brain lib PROXY_API_KEY now robot_id req x_api_key w = (Inl f, w)"
  by (simp add: brain_def)

text \<open>
  The handler compares the rounded age: the snapshot taken just before half a second
  after the epoch is used at \<open>now = 60.5\<close>, although its exact age is above 60.
\<close>

lemma brain_uses_rounded_age:
  "60 < 121 / 2 - ts epoch_snapshot
   \<and> oracle_calls (snd (brain lib None (121 / 2) ''arm1'' req None epoch_world))
        = [(''aW1n'', ''image/png'')]"
proof -
  have ts_eq: "ts epoch_snapshot = 1 / 2 - 1 / 2 ^ 54"
    by (simp add: epoch_snapshot_def)
  have "float_sub (121 / 2) (ts epoch_snapshot) = Fin 60"
    unfolding ts_eq by (rule float_sub_rounds_to_60)
  then have "\<not> float_greater_int (float_sub (121 / 2) (ts epoch_snapshot)) 60"
    by simp
  moreover have "require_key None None = None" by (simp add: require_key_def)
  moreover have "LATEST epoch_world ''arm1'' = Some epoch_snapshot" by (simp add: epoch_world_def)
  ultimately have "snd (brain lib None (121 / 2) ''arm1'' req None epoch_world)
      = snd (oracle_cmds lib epoch_snapshot epoch_world)"
    by (simp add: brain_fresh)
  then show ?thesis
    by (simp add: oracle_cmds_world epoch_world_def epoch_snapshot_def)
qed

section \<open>The claims\<close>

subsection \<open>Bounds of the validated commands\<close>

text \<open>
  Claim C1. Whenever the validation loop returns, every command of its output satisfies
  the declared bounds: a MOVE command has its base, shoulder, elbow and wrist fields
  inside [-150,150], [-10,120], [0,130] and [-90,90], gripper state 0 or 1 and an int
  duration in [1000,20000]; a WAIT command has an int duration in [0,5000].
\<close>

theorem validate_output_in_bounds:
  "validate lib cmds = Inr out \<Longrightarrow> v \<in> set out \<Longrightarrow> in_bounds v"
  using validate_emits emits_in_bounds by blast

theorem validate_output_in_bounds_witness:
  "validate (test_lib (Inr JNull)) scenario_cmds = Inr scenario_safe
   \<and> JList [JStr ''MOVE'', JInt 150, JFloat (Fin 50), JFloat (Fin 60), JFloat (Fin 0),
             JInt 1, JInt 1000] \<in> set scenario_safe
   \<and> in_bounds (JList [JStr ''MOVE'', JInt 150, JFloat (Fin 50), JFloat (Fin 60), JFloat (Fin 0),
             JInt 1, JInt 1000])"
proof -
  have run: "validate (test_lib (Inr JNull)) scenario_cmds = Inr scenario_safe"
    by (rule scenario_validate)
  have mem: "JList [JStr ''MOVE'', JInt 150, JFloat (Fin 50), JFloat (Fin 60), JFloat (Fin 0),
             JInt 1, JInt 1000] \<in> set scenario_safe"
    by (simp add: scenario_safe_def)
  from validate_output_in_bounds [OF run mem] run mem show ?thesis by simp
qed

subsection \<open>Exceptions of the validation loop\<close>

text \<open>
  Claim C2, amended. The loop has no handler of its own and stands after the
  \<^verbatim>\<open>try\<close> block, so it does not return on every plan. It returns exactly when
  \<^verbatim>\<open>cmds\<close> can be iterated and every entry is accepted: an empty or false value, a
  string, or a list in which the fields that are coerced (the six fields of a MOVE list
  of length 7, the second item of a GRIP or WAIT list of length 2) are accepted by
  \<^verbatim>\<open>float\<close> or \<^verbatim>\<open>int\<close>. An entry that is not understood (unknown tag, wrong length of
  a MOVE, GRIP or WAIT list, empty value, string) is omitted without an exception,
  whatever its items, and on such a plan the endpoint answers with the validated commands.
\<close>

theorem validate_returns_iff_accepted:
  "((\<exists>safe. validate lib cmds = Inr safe) \<longleftrightarrow>
      (\<exists>items. py_iter cmds = Inr items \<and> list_all (accepted_entry lib) items))
   \<and> (not_understood c \<longrightarrow> validate_cmd lib c = Inr None)
   \<and> (require_key PROXY_API_KEY x_api_key = None \<and> LATEST w robot_id = Some e
        \<and> \<not> float_greater_int (float_sub now (ts e)) 60
        \<and> fst (oracle_cmds lib e w) = Inr cmds
        \<and> py_iter cmds = Inr items \<and> list_all (accepted_entry lib) items \<longrightarrow>
      (\<exists>safe. validate lib cmds = Inr safe
         \<and> fst (brain lib PROXY_API_KEY now robot_id req x_api_key w)
              = Inr (JDict [(''cmds'', JList safe)])))"
proof (intro conjI impI)
  show "(\<exists>safe. validate lib cmds = Inr safe) \<longleftrightarrow>
      (\<exists>items. py_iter cmds = Inr items \<and> list_all (accepted_entry lib) items)"
    using validate_returns_iff [of lib cmds] by (cases "validate lib cmds") simp_all
next
  assume "not_understood c"
  then show "validate_cmd lib c = Inr None" by (rule not_understood_omitted)
next
  assume h: "require_key PROXY_API_KEY x_api_key = None \<and> LATEST w robot_id = Some e
        \<and> \<not> float_greater_int (float_sub now (ts e)) 60
        \<and> fst (oracle_cmds lib e w) = Inr cmds
        \<and> py_iter cmds = Inr items \<and> list_all (accepted_entry lib) items"
  then have "\<not> isl (validate lib cmds)"
    using validate_returns_iff [of lib cmds] by blast
  then obtain safe where s: "validate lib cmds = Inr safe"
    by (cases "validate lib cmds") simp_all
  from h have "fst (brain lib PROXY_API_KEY now robot_id req x_api_key w)
              = Inr (JDict [(''cmds'', JList safe)])"
    by (simp add: brain_fresh s)
  with s show "\<exists>safe. validate lib cmds = Inr safe
         \<and> fst (brain lib PROXY_API_KEY now robot_id req x_api_key w)
              = Inr (JDict [(''cmds'', JList safe)])"
    by blast
qed

theorem validate_returns_iff_accepted_witness:
  "validate (test_lib (Inr (JDict [(''cmds'', tolerated_cmds)]))) tolerated_cmds = Inr tolerated_safe
   \<and> py_iter tolerated_cmds =
       Inr [JList [JStr ''FOO'', JStr ''bar''],
            JList [JStr ''HOME'', JNull],
            JList [JStr ''MOVE'', JNull, JInt 1],
            JList [JStr ''MOVE'', JFloat NaN, JInt 0, JInt 0, JInt 0, JInt 1, JInt 1000],
            JInt 0,
            JStr ''WAIT'',
            JList [JStr ''GRIP'', JInt 5]]
   \<and> list_all (accepted_entry (test_lib (Inr (JDict [(''cmds'', tolerated_cmds)]))))
       [JList [JStr ''FOO'', JStr ''bar''],
        JList [JStr ''HOME'', JNull],
        JList [JStr ''MOVE'', JNull, JInt 1],
        JList [JStr ''MOVE'', JFloat NaN, JInt 0, JInt 0, JInt 0, JInt 1, JInt 1000],
        JInt 0,
        JStr ''WAIT'',
        JList [JStr ''GRIP'', JInt 5]]
   \<and> not_understood (JList [JStr ''MOVE'', JNull, JInt 1])
   \<and> validate_cmd (test_lib (Inr (JDict [(''cmds'', tolerated_cmds)])))
        (JList [JStr ''MOVE'', JNull, JInt 1]) = Inr None
   \<and> require_key None None = None \<and> LATEST world0 ''arm1'' = Some snapshot
   \<and> \<not> float_greater_int (float_sub 1030 (ts snapshot)) 60
   \<and> fst (oracle_cmds (test_lib (Inr (JDict [(''cmds'', tolerated_cmds)]))) snapshot world0)
        = Inr tolerated_cmds
   \<and> fst (brain (test_lib (Inr (JDict [(''cmds'', tolerated_cmds)]))) None 1030 ''arm1'' request0
            None world0) = Inr (JDict [(''cmds'', JList tolerated_safe)])"
proof -
  let ?lib = "test_lib (Inr (JDict [(''cmds'', tolerated_cmds)]))"
  have k: "require_key None None = None" by (simp add: require_key_def)
  have l: "LATEST world0 ''arm1'' = Some snapshot" by (simp add: world0_def)
  have a: "\<not> float_greater_int (float_sub 1030 (ts snapshot)) 60"
    by (simp add: snapshot_def float_sub_30)
  have n: "not_understood (JList [JStr ''MOVE'', JNull, JInt 1])" by simp
  let ?items = "[JList [JStr ''FOO'', JStr ''bar''],
        JList [JStr ''HOME'', JNull],
        JList [JStr ''MOVE'', JNull, JInt 1],
        JList [JStr ''MOVE'', JFloat NaN, JInt 0, JInt 0, JInt 0, JInt 1, JInt 1000],
        JInt 0,
        JStr ''WAIT'',
        JList [JStr ''GRIP'', JInt 5]]"
  from validate_returns_iff_accepted [of ?lib tolerated_cmds "JList [JStr ''MOVE'', JNull, JInt 1]"
         None None world0 "''arm1''" snapshot 1030 ?items request0]
       tolerated_items tolerated_accepted [of ?lib] tolerated_validate [of ?lib] tolerated_oracle
       k l a n
  show ?thesis by simp
qed

text \<open>
  Claim C2 as written fails: on the plan \<^verbatim>\<open>{"cmds": [["GRIP", "HOME"]]}\<close>, which the
  declared JSON schema admits, \<^verbatim>\<open>int("HOME")\<close> raises ValueError in the loop and the
  exception leaves the handler. A null field (\<^verbatim>\<open>[["WAIT", null]]\<close>) and an entry that is
  a number (\<^verbatim>\<open>[5]\<close>) raise TypeError, whatever the string coercions do.
\<close>

theorem validate_raises_on_non_numeric:
  "validate (test_lib (Inr (JDict [(''cmds'', JList [JList [JStr ''GRIP'', JStr ''HOME'']])])))
     (JList [JList [JStr ''GRIP'', JStr ''HOME'']]) = Inl ValueError
   \<and> fst (brain (test_lib (Inr (JDict [(''cmds'', JList [JList [JStr ''GRIP'', JStr ''HOME'']])])))
          None 1030 ''arm1'' request0 None world0) = Inl (Uncaught ValueError)
   \<and> validate (test_lib (Inr JNull)) (JList [JList [JStr ''WAIT'', JNull]]) = Inl TypeError
   \<and> validate (test_lib (Inr JNull)) (JList [JInt 5]) = Inl TypeError"
proof -
  have k: "require_key None None = None" by (simp add: require_key_def)
  have l: "LATEST world0 ''arm1'' = Some snapshot" by (simp add: world0_def)
  have a: "\<not> float_greater_int (float_sub 1030 (ts snapshot)) 60"
    by (simp add: snapshot_def float_sub_30)
  show ?thesis
    by (simp add: brain_fresh [OF k l a] oracle_cmds_def create_response_def plan_get_cmds_def
      test_lib_def validate_def validate_cmd_def grip_cmd_def wait_cmd_def)
qed

subsection \<open>HOME, STOP and STATUS\<close>

text \<open>
  Claim C3, amended. The branch for HOME, STOP and STATUS does not look at the length of
  the tuple: for a list of any length that starts with one of these tags the loop appends
  the one-item command made of the tag, and the further items are dropped.
\<close>

theorem simple_tag_any_arity:
  "tag = ''HOME'' \<or> tag = ''STOP'' \<or> tag = ''STATUS'' \<Longrightarrow>
     validate_cmd lib (JList (JStr tag # args)) = Inr (Some (JList [JStr tag]))"
  by (auto simp: validate_cmd_def)

theorem simple_tag_any_arity_witness:
  "(''STOP'' = ''HOME'' \<or> ''STOP'' = ''STOP'' \<or> ''STOP'' = ''STATUS'')
   \<and> validate_cmd (test_lib (Inr JNull)) (JList (JStr ''STOP'' # [JInt 7, JNull]))
       = Inr (Some (JList [JStr ''STOP'']))"
  using simple_tag_any_arity [of "''STOP''" "test_lib (Inr JNull)" "[JInt 7, JNull]"] by simp

text \<open>
  Claim C3 as written fails: the tuple \<^verbatim>\<open>["HOME", 1, 2]\<close> of arity 3 is not discarded,
  the command \<^verbatim>\<open>["HOME"]\<close> derived from it is in the output.
\<close>

theorem simple_tag_extra_items_counterexample:
  "validate (test_lib (Inr JNull)) (JList [JList [JStr ''HOME'', JInt 1, JInt 2]])
     = Inr [JList [JStr ''HOME'']]"
  by (simp add: validate_def validate_cmd_def)

subsection \<open>The gripper state\<close>

text \<open>
  Claim C4, amended. The gripper state goes through \<^verbatim>\<open>int\<close> before it is tested, and
  \<^verbatim>\<open>int\<close> truncates toward zero: for a GRIP tuple of arity 2 whose state is a finite number
  \<open>r\<close> the output is \<^verbatim>\<open>["GRIP", 0]\<close> when \<open>\<bar>r\<bar> < 1\<close> and \<^verbatim>\<open>["GRIP", 1]\<close> otherwise, and
  likewise for the gripper field of a MOVE tuple of arity 7 whose other fields coerce.
\<close>

theorem gripper_truncates:
  assumes "number x = Some r"
  shows "validate_cmd lib (JList [JStr ''GRIP'', x])
           = Inr (Some (JList [JStr ''GRIP'', JInt (if \<bar>r\<bar> < 1 then 0 else 1)]))
       \<and> (py_float lib a0 = Inr f0 \<and> py_float lib a1 = Inr f1 \<and> py_float lib a2 = Inr f2
            \<and> py_float lib a3 = Inr f3 \<and> py_int lib T = Inr t \<longrightarrow>
          validate_cmd lib (JList [JStr ''MOVE'', a0, a1, a2, a3, x, T])
            = Inr (Some (JList [JStr ''MOVE'', clip_joint f0 Base, clip_joint f1 Shoulder,
                    clip_joint f2 Elbow, clip_joint f3 Wrist,
                    JInt (if \<bar>r\<bar> < 1 then 0 else 1), JInt (max 1000 (min 20000 t))])))"
  using py_int_number [OF assms, of lib] trunc_zero_iff [of r]
  by (auto simp: validate_cmd_def grip_cmd_def move_cmd_def)

theorem gripper_truncates_witness:
  "number (JInt 5) = Some 5
   \<and> validate_cmd (test_lib (Inr JNull)) (JList [JStr ''GRIP'', JInt 5])
       = Inr (Some (JList [JStr ''GRIP'', JInt 1]))
   \<and> py_float (test_lib (Inr JNull)) (JFloat (Fin 200)) = Inr (Fin 200)
   \<and> py_float (test_lib (Inr JNull)) (JFloat (Fin 50)) = Inr (Fin 50)
   \<and> py_float (test_lib (Inr JNull)) (JFloat (Fin 60)) = Inr (Fin 60)
   \<and> py_float (test_lib (Inr JNull)) (JFloat (Fin 0)) = Inr (Fin 0)
   \<and> py_int (test_lib (Inr JNull)) (JInt 500) = Inr 500
   \<and> validate_cmd (test_lib (Inr JNull))
        (JList [JStr ''MOVE'', JFloat (Fin 200), JFloat (Fin 50), JFloat (Fin 60), JFloat (Fin 0),
                JInt 5, JInt 500])
       = Inr (Some (JList [JStr ''MOVE'', JInt 150, JFloat (Fin 50), JFloat (Fin 60),
                JFloat (Fin 0), JInt 1, JInt 1000]))"
proof -
  have n: "number (JInt 5) = Some 5" by simp
  from gripper_truncates [OF n, of "test_lib (Inr JNull)" "JFloat (Fin 200)" "Fin 200"
         "JFloat (Fin 50)" "Fin 50" "JFloat (Fin 60)" "Fin 60" "JFloat (Fin 0)" "Fin 0"
         "JInt 500" 500]
  show ?thesis
    by (simp add: clip_joint_def clip_def py_min_def)
qed

text \<open>
  Claim C4 as written fails: the nonzero state 0.5 gives \<^verbatim>\<open>["GRIP", 0]\<close>, not
  \<^verbatim>\<open>["GRIP", 1]\<close>.
\<close>

theorem gripper_half_counterexample:
  "validate (test_lib (Inr JNull)) (JList [JList [JStr ''GRIP'', JFloat (Fin (1/2))]])
     = Inr [JList [JStr ''GRIP'', JInt 0]]"
  by (simp add: validate_def validate_cmd_def grip_cmd_def trunc_def)

subsection \<open>Freshness of the snapshot\<close>



subsection \<open>Failure of the oracle\<close>




subsection \<open>Order of the output\<close>

text \<open>
  Claim C7. When the loop returns, its output corresponds, position by position, to the
  subsequence of the plan's entries for which a turn appends a command: each output
  command is the one appended for exactly one entry, and the order is that of the plan.
\<close>

theorem validate_keeps_order:
  assumes "py_iter cmds = Inr items" and "validate lib cmds = Inr out"
  shows "subseq (filter (\<lambda>c. validate_cmd lib c \<noteq> Inr None) items) items
       \<and> list_all2 (\<lambda>c v. validate_cmd lib c = Inr (Some v))
           (filter (\<lambda>c. validate_cmd lib c \<noteq> Inr None) items) out"
proof -
  from assms have "validate_loop lib [] items = Inr out"
    by (simp add: validate_def)
  from validate_loop_Inr [OF this] show ?thesis
    by simp
qed

theorem validate_keeps_order_witness:
  "py_iter scenario_cmds =
     Inr [JList [JStr ''MOVE'', JInt 200, JInt 50, JInt 60, JInt 0, JInt 1, JInt 500],
          JList [JStr ''WAIT'', JInt 99999], JList [JStr ''FOO''], JList [JStr ''GRIP'', JInt 5]]
   \<and> validate (test_lib (Inr JNull)) scenario_cmds = Inr scenario_safe
   \<and> subseq
        [JList [JStr ''MOVE'', JInt 200, JInt 50, JInt 60, JInt 0, JInt 1, JInt 500],
         JList [JStr ''WAIT'', JInt 99999], JList [JStr ''GRIP'', JInt 5]]
        [JList [JStr ''MOVE'', JInt 200, JInt 50, JInt 60, JInt 0, JInt 1, JInt 500],
         JList [JStr ''WAIT'', JInt 99999], JList [JStr ''FOO''], JList [JStr ''GRIP'', JInt 5]]
   \<and> list_all2 (\<lambda>c v. validate_cmd (test_lib (Inr JNull)) c = Inr (Some v))
        [JList [JStr ''MOVE'', JInt 200, JInt 50, JInt 60, JInt 0, JInt 1, JInt 500],
         JList [JStr ''WAIT'', JInt 99999], JList [JStr ''GRIP'', JInt 5]]
        scenario_safe"
  using validate_keeps_order [OF scenario_items scenario_validate [of "Inr JNull"]]
    scenario_items scenario_validate [of "Inr JNull"]
  unfolding scenario_kept by simp

subsection \<open>Idempotence\<close>

text \<open>
  Claim C8. When the loop returns the list \<open>out\<close> on a plan, it returns the same list
  on \<open>out\<close> taken as a plan.
\<close>

theorem validate_idempotent:
  assumes "validate lib cmds = Inr out"
  shows "validate lib (JList out) = Inr out"
proof -
  have "\<forall>v\<in>set out. validate_cmd lib v = Inr (Some v)"
  proof
    fix v assume "v \<in> set out"
    with assms obtain c where "emits lib c v"
      using validate_emits by blast
    then show "validate_cmd lib v = Inr (Some v)"
      by (intro emits_validate_cmd emits_again)
  qed
  from validate_loop_fixed [OF this, of "[]"] show ?thesis
    by (simp add: validate_def)
qed

theorem validate_idempotent_witness:
  "validate (test_lib (Inr JNull)) scenario_cmds = Inr scenario_safe
   \<and> validate (test_lib (Inr JNull)) (JList scenario_safe) = Inr scenario_safe"
  using validate_idempotent [OF scenario_validate [of "Inr JNull"]] scenario_validate [of "Inr JNull"]
  by simp

subsection \<open>Shape of the validated commands\<close>

text \<open>
  Claim C9. When the loop returns, every command of its output is a list whose first
  item is one of the six tags and whose length is the arity of that tag: 7 for MOVE, 2
  for GRIP and WAIT, 1 for HOME, STOP and STATUS, whatever the length of the entry it
  comes from.
\<close>

theorem validate_output_well_formed:
  "validate lib cmds = Inr out \<Longrightarrow> v \<in> set out \<Longrightarrow> well_formed v"
  using validate_emits emits_well_formed by blast

theorem validate_output_well_formed_witness:
  "validate (test_lib (Inr JNull)) (JList [JList [JStr ''STATUS'', JInt 1, JInt 2, JInt 3]])
     = Inr [JList [JStr ''STATUS'']]
   \<and> JList [JStr ''STATUS''] \<in> set [JList [JStr ''STATUS'']]
   \<and> well_formed (JList [JStr ''STATUS''])"
proof -
  have run: "validate (test_lib (Inr JNull)) (JList [JList [JStr ''STATUS'', JInt 1, JInt 2, JInt 3]])
     = Inr [JList [JStr ''STATUS'']]"
    by (simp add: validate_def validate_cmd_def)
  have mem: "JList [JStr ''STATUS''] \<in> set [JList [JStr ''STATUS'']]"
    by simp
  from validate_output_well_formed [OF run mem] run mem show ?thesis by simp
qed

subsection \<open>The snapshot store\<close>

text \<open>
  Claim C10. The handler leaves the snapshot store as it found it, on every path: the
  rejected key, the absent or stale entry, the failed oracle, the returned or raising
  validation.
\<close>

theorem brain_keeps_store:
  "LATEST (snd (brain lib PROXY_API_KEY now robot_id req x_api_key w)) = LATEST w"
proof (cases "require_key PROXY_API_KEY x_api_key")
  case (Some g)
  then show ?thesis by (simp add: brain_rejected)
next
  case None
  show ?thesis
  proof (cases "LATEST w robot_id")
    case absent: None
    with None show ?thesis by (simp add: brain_not_fresh)
  next
    case (Some e)
    show ?thesis
    proof (cases "float_greater_int (float_sub now (ts e)) 60")
      case True
      with None Some show ?thesis by (simp add: brain_not_fresh)
    next
      case False
      with None Some show ?thesis by (simp add: brain_fresh oracle_cmds_world)
    qed
  qed
qed

end
